theory Spec2Isabelle
  imports Main
begin

section \<open>Values, payloads and decimal rendering\<close>

text \<open>
  A \<open>ReviewChange\<close> is a Go \<open>map[string]interface{}\<close>: the code probes it with
  \<open>change["id"]\<close>, \<open>change["text"]\<close> and \<open>change["version"]\<close>. The values it holds
  are modelled by \<open>gvalue\<close>: the nil interface, an integer, a string, or any other Go
  value (a nested anchor object, say), carried as the text \<open>fmt.Sprint\<close> gives it.
  A key that is present with a nil value is \<open>Some GNil\<close>; an absent key is \<open>None\<close>.
\<close>

datatype gvalue = GNil | GInt int | GStr string | GOther string

type_synonym ReviewChange = "string \<rightharpoonup> gvalue"

definition digit_char :: "nat \<Rightarrow> char" where
  "digit_char d = ''0123456789'' ! (d mod 10)"

text \<open>\<open>strconv.Itoa\<close> on a natural number: the decimal digits, most significant first.\<close>

function Itoa_nat :: "nat \<Rightarrow> string" where
  "Itoa_nat n = (if n < 10 then [digit_char n] else Itoa_nat (n div 10) @ [digit_char n])"
  by pat_completeness auto
termination
  by (relation "measure (\<lambda>n. n)") auto

declare Itoa_nat.simps [simp del]

definition Itoa :: "int \<Rightarrow> string" where
  "Itoa i = (if i < 0 then CHR ''-'' # Itoa_nat (nat (- i)) else Itoa_nat (nat i))"

text \<open>
  \<open>fmt.Sprint\<close> of one operand. Indexing a Go map with a missing key gives the nil
  interface, which prints as \<open><nil>\<close>; \<open>Sprint_lookup\<close> is \<open>fmt.Sprint(change[k])\<close>.
\<close>

fun Sprint :: "gvalue \<Rightarrow> string" where
  "Sprint GNil = ''<nil>''"
| "Sprint (GInt i) = Itoa i"
| "Sprint (GStr s) = s"
| "Sprint (GOther s) = s"

definition Sprint_lookup :: "ReviewChange \<Rightarrow> string \<Rightarrow> string" where
  "Sprint_lookup change k = (case change k of None \<Rightarrow> Sprint GNil | Some v \<Rightarrow> Sprint v)"

section \<open>The world: remote service, temporary file, terminal\<close>

text \<open>
  A request as the REST client sends it: the HTTP verb, the URL of the resource, the query
  parameters set with \<open>SetQuery\<close>, and the payload (\<open>Post\<close> and \<open>Put\<close> send one,
  \<open>Delete\<close> and \<open>Get\<close> none).
\<close>

datatype http_method = GET | POST | PUT | DELETE

record request =
  verb :: http_method
  url :: string
  query :: "(string \<times> string) list"
  payload :: "ReviewChange option"

text \<open>A Go \<open>error\<close> value: what \<open>err.Error()\<close> returns.\<close>

datatype gerror = GoError string

fun Error :: "gerror \<Rightarrow> string" where
  "Error (GoError msg) = msg"

datatype log_level = CRITICAL | ERROR | WARNING | NOTICE | INFO | DEBUG

datatype event =
    Print string
  | Log log_level string
  | Request request
  | RunEditor string string
  | ReadReviewCall
  | CompareCall

text \<open>
  The state the program acts on: the trace of what it did, in order, and the temporary
  review file (\<open>None\<close> while it does not exist, otherwise its content).
\<close>

record world =
  trace :: "event list"
  tmp_file :: "string option"

definition emit :: "event \<Rightarrow> world \<Rightarrow> world" where
  "emit e w = w\<lparr>trace := trace w @ [e]\<rparr>"

definition requests_of :: "event list \<Rightarrow> request list" where
  "requests_of t = concat (map (\<lambda>e. case e of Request r \<Rightarrow> [r] | _ \<Rightarrow> []) t)"

definition is_mutation :: "request \<Rightarrow> bool" where
  "is_mutation r = (verb r \<noteq> GET)"

definition mutations_of :: "event list \<Rightarrow> request list" where
  "mutations_of t = filter is_mutation (requests_of t)"


section \<open>Pull requests and the Mutation Applier\<close>

text \<open>
  \<open>PullRequest\<close> keeps the pull request's number and the URL of its REST resource. The
  remote service is a parameter: \<open>respond\<close> gets the requests already sent in this
  session and the request being sent, and answers with the error the client returns
  (\<open>None\<close> for success).
\<close>

record PullRequest =
  pr_Id :: int
  Resource :: string

type_synonym remote = "request list \<Rightarrow> request \<Rightarrow> gerror option"

definition send :: "remote \<Rightarrow> request \<Rightarrow> world \<Rightarrow> gerror option \<times> world" where
  "send respond r w = (respond (requests_of (trace w)) r, emit (Request r) w)"

definition addComment_request :: "PullRequest \<Rightarrow> ReviewChange \<Rightarrow> request" where
  "addComment_request pr change =
     \<lparr>verb = POST, url = Resource pr @ ''/comments'', query = [], payload = Some change\<rparr>"

definition modifyComment_request :: "PullRequest \<Rightarrow> ReviewChange \<Rightarrow> request" where
  "modifyComment_request pr change =
     \<lparr>verb = PUT,
      url = Resource pr @ ''/comments'' @ ''/'' @ Sprint_lookup change ''id'',
      query = [(''version'', Sprint_lookup change ''version'')],
      payload = Some change\<rparr>"

definition removeComment_request :: "PullRequest \<Rightarrow> ReviewChange \<Rightarrow> request" where
  "removeComment_request pr change =
     \<lparr>verb = DELETE,
      url = Resource pr @ ''/comments'' @ ''/'' @ Sprint_lookup change ''id'',
      query = [(''version'', Sprint_lookup change ''version'')],
      payload = None\<rparr>"

definition addComment ::
  "remote \<Rightarrow> PullRequest \<Rightarrow> ReviewChange \<Rightarrow> world \<Rightarrow> gerror option \<times> world" where
  "addComment respond pr change = send respond (addComment_request pr change)"

definition modifyComment ::
  "remote \<Rightarrow> PullRequest \<Rightarrow> ReviewChange \<Rightarrow> world \<Rightarrow> gerror option \<times> world" where
  "modifyComment respond pr change = send respond (modifyComment_request pr change)"

definition removeComment ::
  "remote \<Rightarrow> PullRequest \<Rightarrow> ReviewChange \<Rightarrow> world \<Rightarrow> gerror option \<times> world" where
  "removeComment respond pr change = send respond (removeComment_request pr change)"

text \<open>
  \<open>ApplyChange\<close>: the two-level probe of the source. Every branch returns, so the
  \<open>panic\<close> after the \<open>if\<close> is never reached.
\<close>

definition ApplyChange ::
  "remote \<Rightarrow> PullRequest \<Rightarrow> ReviewChange \<Rightarrow> world \<Rightarrow> gerror option \<times> world" where
  "ApplyChange respond pr change =
     (if change ''id'' \<noteq> None then
        (if change ''text'' \<noteq> None then modifyComment respond pr change
         else removeComment respond pr change)
      else addComment respond pr change)"

text \<open>The request \<open>ApplyChange\<close> sends for a change, by the same probe.\<close>

definition ApplyChange_request :: "PullRequest \<Rightarrow> ReviewChange \<Rightarrow> request" where
  "ApplyChange_request pr change =
     (if change ''id'' \<noteq> None then
        (if change ''text'' \<noteq> None then modifyComment_request pr change
         else removeComment_request pr change)
      else addComment_request pr change)"

section \<open>Reviews and the review session\<close>

text \<open>
  The diff model of the \<open>godiff\<close> library, with the fields the program reads:
  a changeset holds diffs, a diff holds hunks and its line comments, a hunk holds
  segments, a segment holds lines, and a line holds the ids of its comments and the
  comments attached to it.
\<close>

record Comment =
  c_Id :: int
  Text :: string

record Line =
  CommentIds :: "int list"
  Comments :: "Comment list"

record Segment =
  Lines :: "Line list"

record Hunk =
  Segments :: "Segment list"

record Diff =
  Hunks :: "Hunk list"
  LineComments :: "Comment list"

record Changeset =
  Path :: string
  Diffs :: "Diff list"

record Review =
  changeset :: Changeset

text \<open>
  The callback \<open>GetReview\<close> passes to \<open>ForEachLine\<close>: for every comment id of the line,
  every line comment of the diff with that id is appended to the line's comments.
\<close>

definition attach_line :: "Diff \<Rightarrow> Line \<Rightarrow> Line" where
  "attach_line diff line =
     line\<lparr>Comments := Comments line @
       concat (map (\<lambda>id. filter (\<lambda>c. c_Id c = id) (LineComments diff)) (CommentIds line))\<rparr>"

definition ForEachLine_attach :: "Changeset \<Rightarrow> Changeset" where
  "ForEachLine_attach cs =
     cs\<lparr>Diffs := map (\<lambda>diff. diff\<lparr>Hunks := map (\<lambda>hunk. hunk\<lparr>Segments :=
        map (\<lambda>seg. seg\<lparr>Lines := map (attach_line diff) (Lines seg)\<rparr>) (Segments hunk)\<rparr>)
        (Hunks diff)\<rparr>) (Diffs cs)\<rparr>"

text \<open>
  A helper of the program that is not part of the two source files either returns or
  panics; the session installs a recover handler for the second case.
\<close>

datatype 'a call = Panics string | Gives 'a

text \<open>
  What the session is run against. \<open>respond\<close> is the remote service for comment
  requests, \<open>diff_response\<close> the decoded answer to the diff request for a path,
  \<open>TempFile\<close> the name of the temporary file (\<open>None\<close> when it cannot be created),
  \<open>run_editor\<close> the editor process (from the editor, the file name and the file's
  content to its exit error and the content it leaves). The other fields are the
  helpers \<open>GetActivities\<close>, \<open>AddUsageComment\<close>, \<open>AddVimModeline\<close>, \<open>WriteReview\<close> (the
  text it writes), \<open>ReadReview\<close>, \<open>Compare\<close>, \<open>GetPayload\<close> (as \<open>%#v\<close> prints it) and the
  text of \<open>debug.Stack()\<close>.
\<close>

record env =
  respond :: remote
  diff_response :: "string \<Rightarrow> gerror + Changeset"
  GetActivities :: "gerror + Review"
  TempFile :: "string option"
  AddUsageComment :: "Review \<Rightarrow> Review"
  AddVimModeline :: "Review \<Rightarrow> Review"
  WriteReview :: "Review \<Rightarrow> string"
  run_editor :: "string \<Rightarrow> string \<Rightarrow> string \<Rightarrow> gerror option \<times> string"
  ReadReview :: "string \<Rightarrow> (gerror + Review) call"
  Compare :: "Review \<Rightarrow> Review \<Rightarrow> ReviewChange list call"
  GetPayload :: "ReviewChange \<Rightarrow> string"
  Stack :: string

definition nl :: char where
  "nl = CHR 0x0A"

definition Println :: "string \<Rightarrow> world \<Rightarrow> world" where
  "Println s = emit (Print (s @ [nl]))"

definition GetReview ::
  "env \<Rightarrow> PullRequest \<Rightarrow> string \<Rightarrow> world \<Rightarrow> (gerror + Review) \<times> world" where
  "GetReview e pr path w =
     (let w1 = emit (Request \<lparr>verb = GET, url = Resource pr @ ''/diff'' @ ''/'' @ path,
                              query = [], payload = None\<rparr>) w
      in case diff_response e path of
           Inl err \<Rightarrow> (Inl err, w1)
         | Inr cs \<Rightarrow> (Inr \<lparr>changeset = (ForEachLine_attach cs)\<lparr>Path := path\<rparr>\<rparr>, w1))"

text \<open>
  How a function ends: with a value, by \<open>os.Exit\<close> (also through \<open>logger.Fatal\<close>, which
  logs at level CRITICAL and exits with status 1), or by a panic.
\<close>

datatype 'a ctl = Value 'a | Exit nat | Panic string

definition editReviewInEditor ::
  "env \<Rightarrow> string \<Rightarrow> Review \<Rightarrow> string \<Rightarrow> world \<Rightarrow> (gerror + ReviewChange list) ctl \<times> world" where
  "editReviewInEditor e editor reviewToEdit name w =
     (let w1 = emit (Log INFO (''writing review to file: '' @ name)) w;
          rv = AddVimModeline e (AddUsageComment e reviewToEdit);
          w2 = w1\<lparr>tmp_file := Some (WriteReview e rv)\<rparr>;
          w3 = emit (Log DEBUG (''opening editor: '' @ editor @ '' '' @ name)) w2;
          (err, edited) = run_editor e editor name (WriteReview e rv);
          w4 = emit (RunEditor editor name) (w3\<lparr>tmp_file := Some edited\<rparr>)
      in case err of
           Some er \<Rightarrow> (Exit 1, emit (Log CRITICAL (Error er)) w4)
         | None \<Rightarrow>
            (let w5 = emit ReadReviewCall (emit (Log DEBUG ''reading modified review back'') w4)
             in case ReadReview e edited of
                  Panics msg \<Rightarrow> (Panic msg, w5)
                | Gives (Inl er) \<Rightarrow> (Value (Inl er), w5)
                | Gives (Inr editedReview) \<Rightarrow>
                   (let w6 = emit CompareCall
                               (emit (Log DEBUG ''comparing old and new reviews'') w5)
                    in case Compare e rv editedReview of
                         Panics msg \<Rightarrow> (Panic msg, w6)
                       | Gives changes \<Rightarrow> (Value (Inr changes), w6))))"

text \<open>
  The loop of \<open>review\<close> over the changes: \<open>n\<close> is \<open>len(changes)\<close>, \<open>i\<close> the index of
  the change at the head of the list. \<open>logger.Critical\<close> logs and returns.
\<close>

definition progress_line :: "nat \<Rightarrow> nat \<Rightarrow> string" where
  "progress_line k n = ''('' @ Itoa_nat k @ ''/'' @ Itoa_nat n @ '') applying changes'' @ [nl]"

fun apply_changes ::
  "env \<Rightarrow> PullRequest \<Rightarrow> nat \<Rightarrow> nat \<Rightarrow> ReviewChange list \<Rightarrow> world \<Rightarrow> world" where
  "apply_changes e pr n i [] w = w"
| "apply_changes e pr n i (change # rest) w =
     (let w1 = emit (Print (progress_line (i + 1) n)) w;
          w2 = emit (Log DEBUG (''change payload: '' @ GetPayload e change)) w1;
          (err, w3) = ApplyChange (respond e) pr change w2;
          w4 = (case err of
                  Some er \<Rightarrow> emit (Log CRITICAL (''can not apply change: '' @ Error er)) w3
                | None \<Rightarrow> w3)
      in apply_changes e pr n (i + 1) rest w4)"

text \<open>What one iteration of the loop appends to the trace, given the requests sent so far.\<close>

definition iteration_events ::
  "env \<Rightarrow> PullRequest \<Rightarrow> nat \<Rightarrow> nat \<Rightarrow> ReviewChange \<Rightarrow> request list \<Rightarrow> event list" where
  "iteration_events e pr n i change sent =
     [Print (progress_line (i + 1) n),
      Log DEBUG (''change payload: '' @ GetPayload e change),
      Request (ApplyChange_request pr change)] @
     (case respond e sent (ApplyChange_request pr change) of
        Some er \<Rightarrow> [Log CRITICAL (''can not apply change: '' @ Error er)]
      | None \<Rightarrow> [])"

definition printPanicMsg :: "env \<Rightarrow> string \<Rightarrow> string \<Rightarrow> world \<Rightarrow> world" where
  "printPanicMsg e r reviewFileName w =
     fold (\<lambda>act. act)
       [Println [],
        Println (''PANIC: '' @ r),
        Println [],
        Println (Stack e),
        Println ''Well, program is crashed. This is a bug.'',
        Println [],
        emit (Print (''All data you've entered are kept in the file:'' @ [nl, CHR 0x09]
                     @ reviewFileName)),
        Println [],
        Println [],
        emit (Print (''Feel free to open issue or PR on the:'' @ [nl, CHR 0x09]
                     @ ''https://github.com/seletskiy/ash'')),
        Println []]
       w"

text \<open>
  How \<open>review\<close> ends: it returns after the loop, it returns from the deferred recover
  handler, the process exits, or the process dies of a panic raised in the handler.
\<close>

datatype outcome = Returned | Recovered | Exited nat | Crashed

text \<open>The part of \<open>review\<close> that runs under the deferred recover handler.\<close>

definition review_session ::
  "env \<Rightarrow> PullRequest \<Rightarrow> string \<Rightarrow> Review \<Rightarrow> string \<Rightarrow> world \<Rightarrow> outcome \<times> world" where
  "review_session e pr editor rv name w =
     (case editReviewInEditor e editor rv name w of
        (Exit code, w1) \<Rightarrow> (Exited code, w1)
      | (Panic msg, w1) \<Rightarrow> (Recovered, printPanicMsg e msg name w1)
      | (Value (Inl err), w1) \<Rightarrow> (Exited 1, emit (Log CRITICAL (Error err)) w1)
      | (Value (Inr changes), w1) \<Rightarrow>
          if length changes = 0 then
            (Exited 2,
             emit (Log WARNING ''no changes detected in review file (maybe a bug)'') w1)
          else
            (let w2 = emit (Log DEBUG (''applying changes ('' @ Itoa_nat (length changes)
                                       @ '')'')) w1;
                 w3 = apply_changes e pr (length changes) 0 changes w2;
                 w4 = w3\<lparr>tmp_file := None\<rparr>
             in (Returned, emit (Log DEBUG (''removed tmp file: '' @ name)) w4)))"

text \<open>
  \<open>review\<close>; \<open>fetch_review\<close> is its first statement, the download of the overview or of
  the review of a path. When the temporary file cannot be created the file handle is nil: the first
  use of its name panics, and so does the recover handler, which asks for the name
  again.
\<close>

definition fetch_review ::
  "env \<Rightarrow> PullRequest \<Rightarrow> string \<Rightarrow> world \<Rightarrow> (gerror + Review) \<times> world" where
  "fetch_review e pr path w =
     (if path = [] then
        (GetActivities e, emit (Log DEBUG ''downloading overview from Stash'') w)
      else
        GetReview e pr path (emit (Log DEBUG ''downloading review from Stash'') w))"

definition review :: "env \<Rightarrow> PullRequest \<Rightarrow> string \<Rightarrow> string \<Rightarrow> world \<Rightarrow> outcome \<times> world" where
  "review e pr editor path w =
     (case fetch_review e pr path w of
        (Inl err, w1) \<Rightarrow> (Exited 1, emit (Log CRITICAL (Error err)) w1)
      | (Inr rv, w1) \<Rightarrow>
          if length (Diffs (changeset rv)) = 0 then
            (Exited 1, Println ''Specified file is not found in pull request.'' w1)
          else
            (case TempFile e of
               None \<Rightarrow> (Crashed, w1)
             | Some name \<Rightarrow> review_session e pr editor rv name (w1\<lparr>tmp_file := Some []\<rparr>)))"

section \<open>Command-line arguments and \<open>parseUri\<close>\<close>

text \<open>
  The argument map docopt returns: a key whose value is nil (or that is missing) is
  \<open>None\<close>, other values are strings or booleans. \<open>args[k].(string)\<close> panics on a value
  that is not a string.
\<close>

datatype argval = AString string | ABool bool

type_synonym Args = "string \<rightharpoonup> argval"

fun as_string :: "argval option \<Rightarrow> string ctl" where
  "as_string (Some (AString s)) = Value s"
| "as_string _ = Panic ''interface conversion: interface is not string''"

text \<open>
  \<open>strconv.ParseUint(s, 10, bitSize)\<close> and \<open>strconv.ParseInt(s, 10, bitSize)\<close> of the Go
  library. The unsigned loop reads the digits from the left in a 64-bit accumulator; a
  character that is not a decimal digit is a syntax error with value 0; as soon as the
  value passes \<open>2 ^ bitSize - 1\<close> the loop returns that maximum with a range error,
  without reading further. \<open>ParseInt\<close> picks off a sign, and on a range error or a
  magnitude beyond the signed range returns the nearest signed bound with a range
  error.
\<close>

datatype NumError = ErrSyntax | ErrRange

definition is_digit :: "char \<Rightarrow> bool" where
  "is_digit c = (c \<in> set ''0123456789'')"

definition digit_val :: "char \<Rightarrow> nat" where
  "digit_val c = of_char c - 48"

text \<open>The number a string of decimal digits denotes, continuing from \<open>n\<close>.\<close>

definition decimal_from :: "nat \<Rightarrow> string \<Rightarrow> nat" where
  "decimal_from n cs = foldl (\<lambda>a c. a * 10 + digit_val c) n cs"

definition decimal_value :: "string \<Rightarrow> nat" where
  "decimal_value cs = decimal_from 0 cs"

fun ParseUint_loop :: "nat \<Rightarrow> nat \<Rightarrow> string \<Rightarrow> nat \<times> NumError option" where
  "ParseUint_loop maxVal n [] = (n, None)"
| "ParseUint_loop maxVal n (c # cs) =
     (if \<not> is_digit c then (0, Some ErrSyntax)
      else if n \<ge> (2 ^ 64 - 1) div 10 + 1 then (maxVal, Some ErrRange)
      else (let n1 = (n * 10 + digit_val c) mod 2 ^ 64
            in if n1 < n * 10 \<or> n1 > maxVal then (maxVal, Some ErrRange)
               else ParseUint_loop maxVal n1 cs))"

definition ParseUint :: "string \<Rightarrow> nat \<Rightarrow> nat \<times> NumError option" where
  "ParseUint s bitSize =
     (if s = [] then (0, Some ErrSyntax) else ParseUint_loop (2 ^ bitSize - 1) 0 s)"

definition ParseInt :: "string \<Rightarrow> nat \<Rightarrow> int \<times> NumError option" where
  "ParseInt s bitSize =
     (if s = [] then (0, Some ErrSyntax)
      else
        (let neg = (hd s = CHR ''-'');
             s1 = (if hd s = CHR ''+'' \<or> hd s = CHR ''-'' then tl s else s);
             (un, err) = ParseUint s1 bitSize;
             cutoff = (2::nat) ^ (bitSize - 1)
         in if err = Some ErrSyntax then (0, err)
            else if \<not> neg \<and> un \<ge> cutoff then (int cutoff - 1, Some ErrRange)
            else if neg \<and> un > cutoff then (- int cutoff, Some ErrRange)
            else (if neg then - int un else int un, None)))"

text \<open>
  \<open>reStashURL\<close> is
  \<^verbatim>\<open>(https?://.*/)((users|projects)/([^/]+))/repos/([^/]+)/pull-requests/(\d+)\<close>.
  \<open>match_path\<close> matches the part after group 1 at the head of a string and returns
  groups 2 to 6: each repetition there is followed by a character it cannot contain (or
  by nothing), so it takes the longest run.
\<close>

definition strip_prefix :: "string \<Rightarrow> string \<Rightarrow> string option" where
  "strip_prefix p s = (if take (length p) s = p then Some (drop (length p) s) else None)"

definition not_slash :: "char \<Rightarrow> bool" where
  "not_slash c = (c \<noteq> CHR ''/'')"

definition match_path :: "string \<Rightarrow> string list option" where
  "match_path s =
     (case (case strip_prefix ''users'' s of
              Some t \<Rightarrow> Some (''users'', t)
            | None \<Rightarrow> (case strip_prefix ''projects'' s of
                         Some t \<Rightarrow> Some (''projects'', t)
                       | None \<Rightarrow> None)) of
        None \<Rightarrow> None
      | Some (kind, s1) \<Rightarrow>
         (case strip_prefix ''/'' s1 of
            None \<Rightarrow> None
          | Some s2 \<Rightarrow>
             (let proj = takeWhile not_slash s2
              in if proj = [] then None
                 else
                  (case strip_prefix ''/repos/'' (dropWhile not_slash s2) of
                     None \<Rightarrow> None
                   | Some s3 \<Rightarrow>
                      (let rp = takeWhile not_slash s3
                       in if rp = [] then None
                          else
                           (case strip_prefix ''/pull-requests/'' (dropWhile not_slash s3) of
                              None \<Rightarrow> None
                            | Some s4 \<Rightarrow>
                               (let ds = takeWhile is_digit s4
                                in if ds = [] then None
                                   else Some [kind @ ''/'' @ proj, kind, proj, rp, ds])))))))"

text \<open>
  The greedy \<^verbatim>\<open>.*/\<close> of group 1: \<open>.\<close> matches every character but the newline, and
  of the slashes the repetition can stop at, the last one after which the rest of the
  pattern matches is taken. \<open>pre\<close> is what the repetition has consumed.
\<close>

fun match_dotstar :: "string \<Rightarrow> string \<Rightarrow> (string \<times> string list) option" where
  "match_dotstar pre [] = None"
| "match_dotstar pre (c # cs) =
     (if c = nl then None
      else (case match_dotstar (pre @ [c]) cs of
              Some m \<Rightarrow> Some m
            | None \<Rightarrow>
               (if c = CHR ''/'' then
                  (case match_path cs of
                     Some gs \<Rightarrow> Some (pre @ [c], gs)
                   | None \<Rightarrow> None)
                else None)))"

definition match_reStashURL :: "string \<Rightarrow> string list option" where
  "match_reStashURL s =
     (case (case strip_prefix ''https://'' s of
              Some t \<Rightarrow> Some (''https://'', t)
            | None \<Rightarrow> (case strip_prefix ''http://'' s of
                         Some t \<Rightarrow> Some (''http://'', t)
                       | None \<Rightarrow> None)) of
        None \<Rightarrow> None
      | Some (scheme, t) \<Rightarrow>
         (case match_dotstar [] t of
            None \<Rightarrow> None
          | Some (pre, gs) \<Rightarrow>
              Some ((scheme @ pre @ gs ! 0 @ ''/repos/'' @ gs ! 3 @ ''/pull-requests/'' @ gs ! 4)
                    # (scheme @ pre) # gs)))"

text \<open>
  \<open>reStashURL.FindStringSubmatch\<close>: the match that starts leftmost, as the list of the
  whole match and the six groups; the empty list when there is none.
\<close>

fun FindStringSubmatch_reStashURL :: "string \<Rightarrow> string list" where
  "FindStringSubmatch_reStashURL [] = []"
| "FindStringSubmatch_reStashURL (c # cs) =
     (case match_reStashURL (c # cs) of
        Some m \<Rightarrow> m
      | None \<Rightarrow> FindStringSubmatch_reStashURL cs)"

text \<open>\<open>strings.Split(s, "/")\<close> for a one-character separator.\<close>

fun Split :: "char \<Rightarrow> string \<Rightarrow> string list" where
  "Split sep [] = [[]]"
| "Split sep (c # cs) =
     (if c = sep then [] # Split sep cs
      else (case Split sep cs of
              [] \<Rightarrow> [[c]]
            | x # xs \<Rightarrow> (c # x) # xs))"

record uri_result =
  result_host :: string
  result_project :: string
  result_repo :: string
  result_pr :: int

definition startUrlExample :: string where
  "startUrlExample =
     ''http[s]://<host>/(users|projects)/<project>/repos/<repo>/pull-requests/<id>''"

text \<open>The two assignments at the head of \<open>parseUri\<close>: \<open>(uri, keyName, should)\<close>.\<close>

definition select_uri :: "Args \<Rightarrow> (string \<times> string \<times> nat) ctl" where
  "select_uri args =
     (case (if args ''<project>/<repo>/<pr>'' \<noteq> None then
              (case as_string (args ''<project>/<repo>/<pr>'') of
                 Value u \<Rightarrow> Value (u, ''<project>/<repo>/<pr>'', 3)
               | Exit c \<Rightarrow> Exit c
               | Panic m \<Rightarrow> Panic m)
            else Value ([], [], 0)) of
        Value st \<Rightarrow>
          (if args ''<project>/<repo>'' \<noteq> None then
             (case as_string (args ''<project>/<repo>'') of
                Value u \<Rightarrow> Value (u, ''<project>/<repo>'', 2)
              | Exit c \<Rightarrow> Exit c
              | Panic m \<Rightarrow> Panic m)
           else Value st)
      | Exit c \<Rightarrow> Exit c
      | Panic m \<Rightarrow> Panic m)"

text \<open>The shorthand branch of \<open>parseUri\<close>, after \<open>--host\<close> was read.\<close>

definition parseUri_shorthand ::
  "Args \<Rightarrow> string \<Rightarrow> string \<Rightarrow> nat \<Rightarrow> string \<Rightarrow> world \<Rightarrow> uri_result ctl \<times> world" where
  "parseUri_shorthand args uri keyName should h w =
     (let matches = Split (CHR ''/'') uri;
          r0 = \<lparr>result_host = h, result_project = [], result_repo = [], result_pr = 0\<rparr>;
          r1 = (if length matches = 2 \<and> should = 3 \<and> args ''--project'' \<noteq> None then
                  r0\<lparr>result_repo := matches ! 0,
                     result_pr := fst (ParseInt (matches ! 1) 16)\<rparr>
                else r0)
      in case (if args ''--project'' \<noteq> None then
                 (case as_string (args ''--project'') of
                    Value p \<Rightarrow> Value (r1\<lparr>result_project := p\<rparr>)
                  | Exit c \<Rightarrow> Exit c
                  | Panic m \<Rightarrow> Panic m)
               else Value r1) of
           Exit c \<Rightarrow> (Exit c, w)
         | Panic m \<Rightarrow> (Panic m, w)
         | Value r2 \<Rightarrow>
            (let r3 = (if length matches = 2 \<and> should = 2 then
                         r2\<lparr>result_project := matches ! 0, result_repo := matches ! 1\<rparr>
                       else r2);
                 r4 = (if length matches \<ge> 3 \<and> should = 3 then
                         r3\<lparr>result_project := matches ! 0, result_repo := matches ! 1,
                            result_pr := fst (ParseInt (matches ! 2) 16)\<rparr>
                       else r3);
                 enough = (result_project r4 \<noteq> [] \<and> result_repo r4 \<noteq> [] \<and>
                           (result_pr r4 \<noteq> 0 \<or> should = 2))
             in if \<not> enough then
                  (Exit 1,
                   Println (''<pull-request> should be in either:'' @ [nl] @
                            '' - URL Format: '' @ startUrlExample @ [nl] @
                            '' - Shorthand format: '' @ keyName) w)
                else
                  (Value (r4\<lparr>result_project :=
                      (if hd (result_project r4) = CHR ''~'' \<or> hd (result_project r4) = CHR ''%''
                       then ''users/'' @ tl (result_project r4)
                       else ''projects/'' @ result_project r4)\<rparr>), w)))"

definition parseUri :: "Args \<Rightarrow> world \<Rightarrow> uri_result ctl \<times> world" where
  "parseUri args w =
     (case select_uri args of
        Exit c \<Rightarrow> (Exit c, w)
      | Panic m \<Rightarrow> (Panic m, w)
      | Value (uri, keyName, should) \<Rightarrow>
         (let matches = FindStringSubmatch_reStashURL uri
          in if length matches \<noteq> 0 then
               (Value \<lparr>result_host = matches ! 1, result_project = matches ! 2,
                       result_repo = matches ! 5,
                       result_pr = fst (ParseInt (matches ! 6) 16)\<rparr>, w)
             else if args ''--host'' = None then
               (Exit 1, Println ''In case of shorthand syntax --host should be specified'' w)
             else
               (case as_string (args ''--host'') of
                  Exit c \<Rightarrow> (Exit c, w)
                | Panic m \<Rightarrow> (Panic m, w)
                | Value h \<Rightarrow> parseUri_shorthand args uri keyName should h w)))"

section \<open>Redacting the password in the logged arguments\<close>

text \<open>
  \<open>rePassFlag\<close> is \<^verbatim>\<open>(\s(-p|--pass)[\s=])([^ ]+)\<close>; \<^verbatim>\<open>\s\<close> is tab, newline, form feed,
  carriage return or space. \<open>match_rePassFlag\<close> matches it at the head of a string and
  returns group 1, group 2, group 3 and the text after the match. The two flags differ
  in their second character, and the last repetition takes the longest run of
  characters other than the space.
\<close>

definition is_space :: "char \<Rightarrow> bool" where
  "is_space c = (c \<in> set [CHR 0x09, CHR 0x0A, CHR 0x0C, CHR 0x0D, CHR '' ''])"

definition not_blank :: "char \<Rightarrow> bool" where
  "not_blank c = (c \<noteq> CHR '' '')"

definition match_rePassFlag :: "string \<Rightarrow> (string \<times> string \<times> string \<times> string) option" where
  "match_rePassFlag s =
     (case s of
        [] \<Rightarrow> None
      | c # s1 \<Rightarrow>
         if \<not> is_space c then None
         else
          (case (case strip_prefix ''-p'' s1 of
                   Some t \<Rightarrow> Some (''-p'', t)
                 | None \<Rightarrow> (case strip_prefix ''--pass'' s1 of
                              Some t \<Rightarrow> Some (''--pass'', t)
                            | None \<Rightarrow> None)) of
             None \<Rightarrow> None
           | Some (flag, s2) \<Rightarrow>
              (case s2 of
                 [] \<Rightarrow> None
               | d # s3 \<Rightarrow>
                  if \<not> (is_space d \<or> d = CHR ''='') then None
                  else if takeWhile not_blank s3 = [] then None
                  else Some (c # flag @ [d], flag, takeWhile not_blank s3,
                             dropWhile not_blank s3))))"


text \<open>
  \<open>rePassFlag.ReplaceAllString(src, "$1" + lit)\<close> for a literal \<open>lit\<close> of asterisks:
  the matches are found from the left, each search starting where the previous match
  ended; a match is replaced by its group 1 followed by \<open>lit\<close>, and the text between the
  matches is copied. \<open>skip\<close> counts the characters of the current match still to be
  passed over.
\<close>

fun ReplaceAllString_rePassFlag :: "string \<Rightarrow> nat \<Rightarrow> string \<Rightarrow> string" where
  "ReplaceAllString_rePassFlag lit skip [] = []"
| "ReplaceAllString_rePassFlag lit (Suc skip) (c # cs) = ReplaceAllString_rePassFlag lit skip cs"
| "ReplaceAllString_rePassFlag lit 0 (c # cs) =
     (case match_rePassFlag (c # cs) of
        Some (g1, g2, g3, rest) \<Rightarrow>
          g1 @ lit @ ReplaceAllString_rePassFlag lit (length g1 + length g3 - 1) cs
      | None \<Rightarrow> c # ReplaceAllString_rePassFlag lit 0 cs)"




section \<open>Examples\<close>

text \<open>A pull request, three changes and a session to evaluate the functions on.\<close>

definition ex_world :: world where
  "ex_world = \<lparr>trace = [], tmp_file = None\<rparr>"

definition ex_pr :: PullRequest where
  "ex_pr = \<lparr>pr_Id = 7,
            Resource = ''http://stash/rest/api/1.0/projects/p/repos/r/pull-requests/7''\<rparr>"

definition ex_create :: ReviewChange where
  "ex_create = [''text'' \<mapsto> GStr ''nit'', ''anchor'' \<mapsto> GOther ''map[line:3]'']"

definition ex_update :: ReviewChange where
  "ex_update = [''id'' \<mapsto> GInt 12, ''version'' \<mapsto> GInt 3, ''text'' \<mapsto> GStr ''looks good'']"

definition ex_delete :: ReviewChange where
  "ex_delete = [''id'' \<mapsto> GInt 13, ''version'' \<mapsto> GInt 1]"

definition ex_remote :: "string \<Rightarrow> remote" where
  "ex_remote msg = (\<lambda>sent r. if verb r = PUT then Some (GoError msg) else None)"

definition ex_review :: Review where
  "ex_review = \<lparr>changeset = \<lparr>Path = ''main.go'',
       Diffs = [\<lparr>Hunks = [\<lparr>Segments = [\<lparr>Lines = [\<lparr>CommentIds = [12], Comments = []\<rparr>]\<rparr>]\<rparr>],
                 LineComments = [\<lparr>c_Id = 12, Text = ''ok''\<rparr>]\<rparr>]\<rparr>\<rparr>"

definition ex_env :: "string \<Rightarrow> env" where
  "ex_env msg =
     \<lparr>respond = ex_remote msg,
      diff_response = (\<lambda>path. Inr (changeset ex_review)),
      GetActivities = Inr ex_review,
      TempFile = Some ''/tmp/review.diff.1'',
      AddUsageComment = (\<lambda>r. r),
      AddVimModeline = (\<lambda>r. r),
      WriteReview = (\<lambda>r. ''+line'' @ [nl] @ ''# [12@3] ok''),
      run_editor = (\<lambda>editor name text. (None, text @ [nl] @ ''# nit'')),
      ReadReview = (\<lambda>text. Gives (Inr ex_review)),
      Compare = (\<lambda>a b. Gives [ex_update, ex_create]),
      GetPayload = (\<lambda>c. ''map[...]''),
      Stack = ''goroutine 1 [running]''\<rparr>"

definition ex_fetched :: Review where
  "ex_fetched = \<lparr>changeset = (ForEachLine_attach (changeset ex_review))\<lparr>Path := ''main.go''\<rparr>\<rparr>"

definition ex_fetched_world :: world where
  "ex_fetched_world =
     emit (Request \<lparr>verb = GET, url = Resource ex_pr @ ''/diff/main.go'', query = [],
                    payload = None\<rparr>)
       (emit (Log DEBUG ''downloading review from Stash'') ex_world)"

definition ex_env_absent :: env where
  "ex_env_absent = (ex_env ''x'')\<lparr>diff_response := (\<lambda>path. Inr \<lparr>Path = [], Diffs = []\<rparr>)\<rparr>"

definition ex_env_editor_fails :: env where
  "ex_env_editor_fails =
     (ex_env ''x'')\<lparr>run_editor := (\<lambda>editor name text. (Some (GoError ''exit status 1''), text))\<rparr>"

definition ex_env_unparsable :: env where
  "ex_env_unparsable =
     (ex_env ''x'')\<lparr>ReadReview := (\<lambda>text. Gives (Inl (GoError ''unexpected EOF'')))\<rparr>"

definition ex_args_url :: Args where
  "ex_args_url =
     [''<project>/<repo>/<pr>'' \<mapsto>
        AString ''https://stash.local/projects/p/repos/r/pull-requests/40000'']"

definition ex_args_short :: Args where
  "ex_args_short =
     [''<project>/<repo>/<pr>'' \<mapsto> AString ''p/r/40000'', ''--host'' \<mapsto> AString ''stash.local'']"


section \<open>Traces\<close>

lemma requests_of_append: "requests_of (xs @ ys) = requests_of xs @ requests_of ys"
  by (simp add: requests_of_def)

lemma requests_of_Nil: "requests_of [] = []"
  by (simp add: requests_of_def)

lemma requests_of_Cons:
  "requests_of (ev # t) = (case ev of Request r \<Rightarrow> [r] | _ \<Rightarrow> []) @ requests_of t"
  by (simp add: requests_of_def)

lemma trace_emit: "trace (emit ev w) = trace w @ [ev]"
  by (simp add: emit_def)

lemma tmp_file_emit: "tmp_file (emit ev w) = tmp_file w"
  by (simp add: emit_def)


section \<open>The Mutation Applier\<close>

lemma ApplyChange_send:
  "ApplyChange rsp pr change w = send rsp (ApplyChange_request pr change) w"
  by (simp add: ApplyChange_def ApplyChange_request_def addComment_def modifyComment_def
      removeComment_def)

lemma ex_requests:
  "ApplyChange_request ex_pr ex_update = modifyComment_request ex_pr ex_update"
  "ApplyChange_request ex_pr ex_create = addComment_request ex_pr ex_create"
  by (simp_all add: ApplyChange_request_def ex_update_def ex_create_def)

lemma ex_methods:
  "verb (modifyComment_request p c) = PUT"
  "verb (addComment_request p c) = POST"
  "verb (removeComment_request p c) = DELETE"
  by (simp_all add: modifyComment_request_def addComment_request_def removeComment_request_def)

text \<open>
  Claim C1. \<open>ApplyChange\<close> sends exactly one request, chosen by the presence of the keys:
  a POST to the comments resource, with the change as payload, exactly when the change
  has no \<open>id\<close>; a PUT exactly when it has an \<open>id\<close> and a \<open>text\<close>; a DELETE exactly when
  it has an \<open>id\<close> and no \<open>text\<close>. The request is never of another kind, and the error
  returned is the answer of the remote service to it.
\<close>

theorem ApplyChange_selects_operation:
  "\<exists>req. ApplyChange rsp pr change w = (rsp (requests_of (trace w)) req, emit (Request req) w)
     \<and> (verb req = POST \<longleftrightarrow> change ''id'' = None)
     \<and> (verb req = PUT \<longleftrightarrow> change ''id'' \<noteq> None \<and> change ''text'' \<noteq> None)
     \<and> (verb req = DELETE \<longleftrightarrow> change ''id'' \<noteq> None \<and> change ''text'' = None)
     \<and> verb req \<noteq> GET
     \<and> (verb req = POST \<longrightarrow> url req = Resource pr @ ''/comments'' \<and> payload req = Some change)"
  by (rule exI [of _ "ApplyChange_request pr change"])
     (simp add: ApplyChange_send send_def ApplyChange_request_def addComment_request_def
       modifyComment_request_def removeComment_request_def)

text \<open>The create of the example is sent as a POST to the comments resource.\<close>

theorem ApplyChange_selects_operation_witness:
  "\<exists>req. ApplyChange (ex_remote ''x'') ex_pr ex_create ex_world =
           (None, emit (Request req) ex_world)
     \<and> verb req = POST \<and> url req = Resource ex_pr @ ''/comments''
     \<and> payload req = Some ex_create"
  using ApplyChange_selects_operation [of "ex_remote ''x''" ex_pr ex_create ex_world]
  by (auto simp: ex_create_def ex_remote_def)

text \<open>
  Claim C4. The request of an update or of a delete (sent exactly when the change has an
  \<open>id\<close>) names the comment by its id in the URL and carries one query parameter,
  \<open>version\<close>, whose value is the change's version as \<open>fmt.Sprint\<close> prints it; the
  request of a create has no query parameter, only the change itself as payload.
\<close>

theorem version_token_in_query:
  "\<exists>req. snd (ApplyChange rsp pr change w) = emit (Request req) w
     \<and> (verb req = PUT \<or> verb req = DELETE \<longrightarrow>
          query req = [(''version'', Sprint_lookup change ''version'')]
          \<and> url req = Resource pr @ ''/comments/'' @ Sprint_lookup change ''id''
          \<and> (\<forall>v. change ''version'' = Some v \<longrightarrow> query req = [(''version'', Sprint v)]))
     \<and> (verb req = POST \<longrightarrow> query req = [] \<and> payload req = Some change)
     \<and> (verb req = PUT \<or> verb req = DELETE \<longleftrightarrow> change ''id'' \<noteq> None)"
  by (rule exI [of _ "ApplyChange_request pr change"])
     (simp add: ApplyChange_send send_def ApplyChange_request_def addComment_request_def
       modifyComment_request_def removeComment_request_def Sprint_lookup_def)

text \<open>The delete of the example carries its version 1 and names comment 13.\<close>

theorem version_token_in_query_witness:
  "\<exists>req. snd (ApplyChange (ex_remote ''x'') ex_pr ex_delete ex_world) =
           emit (Request req) ex_world
     \<and> query req = [(''version'', ''1'')]
     \<and> url req = Resource ex_pr @ ''/comments/13''"
  using version_token_in_query [of "ex_remote ''x''" ex_pr ex_delete ex_world]
  by (auto simp: ex_delete_def Sprint_lookup_def Itoa_def Itoa_nat.simps digit_char_def)

section \<open>The loop over the changes\<close>

lemma apply_changes_Cons:
  "apply_changes e pr n i (c # rest) w =
     apply_changes e pr n (Suc i) rest
       (w\<lparr>trace := trace w @ iteration_events e pr n i c (requests_of (trace w))\<rparr>)"
  by (simp add: ApplyChange_send send_def emit_def iteration_events_def requests_of_append
      requests_of_Cons requests_of_Nil split: option.split)

declare apply_changes.simps(2) [simp del]

lemma requests_of_iteration_events:
  "requests_of (iteration_events e pr n i c sent) = [ApplyChange_request pr c]"
  by (simp add: iteration_events_def requests_of_append requests_of_Cons requests_of_Nil
      split: option.split)


lemma apply_changes_requests:
  "requests_of (trace (apply_changes e pr n i cs w)) =
     requests_of (trace w) @ map (ApplyChange_request pr) cs"
proof (induction cs arbitrary: i w)
  case Nil
  then show ?case by simp
next
  case (Cons c cs)
  show ?case
    unfolding apply_changes_Cons Cons.IH
    by (simp add: requests_of_append requests_of_iteration_events)
qed

lemma apply_changes_tmp_file: "tmp_file (apply_changes e pr n i cs w) = tmp_file w"
proof (induction cs arbitrary: i w)
  case Nil
  then show ?case by simp
next
  case (Cons c cs)
  show ?case
    unfolding apply_changes_Cons Cons.IH by simp
qed

lemma apply_changes_extends:
  "\<exists>t. trace (apply_changes e pr n i cs w) = trace w @ t"
proof (induction cs arbitrary: i w)
  case Nil
  then show ?case by simp
next
  case (Cons c cs)
  obtain t where "trace (apply_changes e pr n (Suc i) cs
       (w\<lparr>trace := trace w @ iteration_events e pr n i c (requests_of (trace w))\<rparr>))
     = (trace w @ iteration_events e pr n i c (requests_of (trace w))) @ t"
    using Cons.IH [of "Suc i" "w\<lparr>trace := trace w @ iteration_events e pr n i c (requests_of (trace w))\<rparr>"]
    by auto
  then show ?case
    unfolding apply_changes_Cons by simp
qed


lemma apply_changes_failure_logged:
  assumes "k < length cs"
    and "respond e (requests_of (trace w) @ map (ApplyChange_request pr) (take k cs))
           (ApplyChange_request pr (cs ! k)) = Some err"
  shows "\<exists>before after.
           trace (apply_changes e pr n i cs w) =
             before @ [Request (ApplyChange_request pr (cs ! k)),
                       Log CRITICAL (''can not apply change: '' @ Error err)] @ after
         \<and> requests_of before =
             requests_of (trace w) @ map (ApplyChange_request pr) (take k cs)"
  using assms
proof (induction cs arbitrary: i w k)
  case Nil
  then show ?case by simp
next
  case (Cons c cs)
  let ?w = "w\<lparr>trace := trace w @ iteration_events e pr n i c (requests_of (trace w))\<rparr>"
  show ?case
  proof (cases k)
    case 0
    obtain t where t: "trace (apply_changes e pr n (Suc i) cs ?w) = trace ?w @ t"
      using apply_changes_extends by blast
    have ev: "iteration_events e pr n i c (requests_of (trace w)) =
        [Print (progress_line (i + 1) n),
         Log DEBUG (''change payload: '' @ GetPayload e c)] @
        [Request (ApplyChange_request pr c),
         Log CRITICAL (''can not apply change: '' @ Error err)]"
      using Cons.prems 0 by (simp add: iteration_events_def)
    show ?thesis
      unfolding apply_changes_Cons t
      apply (rule exI [of _ "trace w @ [Print (progress_line (i + 1) n),
         Log DEBUG (''change payload: '' @ GetPayload e c)]"])
      apply (rule exI [of _ t])
      using 0 by (simp add: ev requests_of_append requests_of_Cons requests_of_Nil)
  next
    case (Suc j)
    have j: "j < length cs" using Cons.prems Suc by simp
    have r: "respond e (requests_of (trace ?w) @ map (ApplyChange_request pr) (take j cs))
           (ApplyChange_request pr (cs ! j)) = Some err"
      using Cons.prems Suc by (simp add: requests_of_append requests_of_iteration_events)
    from Cons.IH [OF j r, of "Suc i"] show ?thesis
      unfolding apply_changes_Cons using Suc
      by (simp add: requests_of_append requests_of_iteration_events)
  qed
qed

text \<open>
  Claim C5. Whatever the remote service answers, the loop sends the request of every
  change, in the order of the list; and when the service answers the request of the
  \<open>k\<close>-th change with an error (a version conflict, say), the failure is logged for that
  change, directly after its request, and the requests before it are those of the
  changes before it.
\<close>

theorem apply_changes_best_effort:
  "requests_of (trace (apply_changes e pr n i cs w)) =
     requests_of (trace w) @ map (ApplyChange_request pr) cs
   \<and> (\<forall>k err. k < length cs \<and>
         respond e (requests_of (trace w) @ map (ApplyChange_request pr) (take k cs))
           (ApplyChange_request pr (cs ! k)) = Some err \<longrightarrow>
         (\<exists>before after.
            trace (apply_changes e pr n i cs w) =
              before @ [Request (ApplyChange_request pr (cs ! k)),
                        Log CRITICAL (''can not apply change: '' @ Error err)] @ after
            \<and> requests_of before =
              requests_of (trace w) @ map (ApplyChange_request pr) (take k cs)))"
  using apply_changes_requests apply_changes_failure_logged by blast

text \<open>
  An update that the service refuses with a version conflict is reported, and the create
  after it is still sent.
\<close>

theorem apply_changes_best_effort_witness:
  "respond (ex_env ''409 Conflict: comment version is stale'') []
     (ApplyChange_request ex_pr ex_update) = Some (GoError ''409 Conflict: comment version is stale'')
   \<and> (\<exists>before after.
        trace (apply_changes (ex_env ''409 Conflict: comment version is stale'') ex_pr 2 0
                 [ex_update, ex_create] ex_world) =
          before @ [Request (ApplyChange_request ex_pr ex_update),
                    Log CRITICAL (''can not apply change: 409 Conflict: comment version is stale'')]
                 @ after
        \<and> requests_of before = [])
   \<and> requests_of (trace (apply_changes (ex_env ''409 Conflict: comment version is stale'') ex_pr 2 0
                 [ex_update, ex_create] ex_world)) =
       [ApplyChange_request ex_pr ex_update, ApplyChange_request ex_pr ex_create]"
proof -
  have r: "respond (ex_env ''409 Conflict: comment version is stale'') []
     (ApplyChange_request ex_pr ex_update) = Some (GoError ''409 Conflict: comment version is stale'')"
    by (simp add: ex_env_def ex_remote_def ex_requests ex_methods)
  have t: "requests_of (trace ex_world) = []"
    by (simp add: ex_world_def requests_of_def)
  show ?thesis
    using apply_changes_best_effort
      [of "ex_env ''409 Conflict: comment version is stale''" ex_pr 2 0
          "[ex_update, ex_create]" ex_world]
      r t
    apply simp
    apply (drule conjunct2)
    apply (drule spec [of _ 0])
    apply simp
    done
qed




section \<open>The review session\<close>

lemma mutations_of_append: "mutations_of (xs @ ys) = mutations_of xs @ mutations_of ys"
  by (simp add: mutations_of_def requests_of_append)

lemma mutations_of_simps:
  "mutations_of [] = []"
  "mutations_of (Print s # t) = mutations_of t"
  "mutations_of (Log l s # t) = mutations_of t"
  "mutations_of (RunEditor ed nm # t) = mutations_of t"
  "mutations_of (ReadReviewCall # t) = mutations_of t"
  "mutations_of (CompareCall # t) = mutations_of t"
  "mutations_of (Request r # t) = (if verb r = GET then [] else [r]) @ mutations_of t"
  by (simp_all add: mutations_of_def requests_of_def is_mutation_def)

lemma fetch_review_effect:
  assumes "fetch_review e pr path w = (r, w1)"
  shows "tmp_file w1 = tmp_file w \<and>
         (\<exists>t. trace w1 = trace w @ t \<and> mutations_of t = [] \<and>
              (\<forall>ev \<in> set t. (\<exists>l s. ev = Log l s) \<or> (\<exists>rq. ev = Request rq)))"
  using assms
  by (auto simp: fetch_review_def GetReview_def emit_def Let_def mutations_of_simps
      split: if_splits sum.splits)

lemma editReviewInEditor_editor_fails:
  assumes "run_editor e editor name (WriteReview e (AddVimModeline e (AddUsageComment e rv))) = (Some err, edited)"
  shows "editReviewInEditor e editor rv name w =
          (Exit 1, w\<lparr>trace := trace w @
              [Log INFO (''writing review to file: '' @ name),
               Log DEBUG (''opening editor: '' @ editor @ '' '' @ name),
               RunEditor editor name,
               Log CRITICAL (Error err)],
              tmp_file := Some edited\<rparr>)"
  using assms by (simp add: editReviewInEditor_def emit_def Let_def)


lemma editReviewInEditor_effect:
  assumes "editReviewInEditor e editor rv name w = (r, w1)"
  shows "tmp_file w1 \<noteq> None \<and> (\<exists>t. trace w1 = trace w @ t \<and> mutations_of t = [])"
  using assms
  by (auto simp: editReviewInEditor_def emit_def Let_def mutations_of_simps
      split: prod.splits option.splits call.splits sum.splits)

lemma tmp_file_printPanicMsg: "tmp_file (printPanicMsg e r name w) = tmp_file w"
  by (simp add: printPanicMsg_def Println_def emit_def)

lemma review_session_outcome:
  "fst (review_session e pr editor rv name w) =
     (case fst (editReviewInEditor e editor rv name w) of
        Exit c \<Rightarrow> Exited c
      | Panic m \<Rightarrow> Recovered
      | Value (Inl err) \<Rightarrow> Exited 1
      | Value (Inr changes) \<Rightarrow> if changes = [] then Exited 2 else Returned)"
  by (simp add: review_session_def Let_def split: prod.splits ctl.splits sum.splits)

lemma review_session_tmp_file:
  "tmp_file (snd (review_session e pr editor rv name w)) =
     (if fst (review_session e pr editor rv name w) = Returned then None
      else tmp_file (snd (editReviewInEditor e editor rv name w)))"
  by (simp add: review_session_def Let_def emit_def tmp_file_printPanicMsg
      split: prod.splits ctl.splits sum.splits)

lemma editReviewInEditor_respond:
  "editReviewInEditor (e\<lparr>respond := rsp\<rparr>) editor rv name w = editReviewInEditor e editor rv name w"
  by (simp add: editReviewInEditor_def Let_def
      split: prod.splits option.splits call.splits sum.splits)

lemma fetch_review_respond:
  "fetch_review (e\<lparr>respond := rsp\<rparr>) pr path w = fetch_review e pr path w"
  by (simp add: fetch_review_def GetReview_def)

lemma review_outcome:
  "fst (review e pr editor path w) =
     (case fetch_review e pr path w of
        (Inl err, w1) \<Rightarrow> Exited 1
      | (Inr rv, w1) \<Rightarrow>
          if Diffs (changeset rv) = [] then Exited 1
          else (case TempFile e of
                  None \<Rightarrow> Crashed
                | Some name \<Rightarrow>
                    fst (review_session e pr editor rv name (w1\<lparr>tmp_file := Some []\<rparr>))))"
  by (simp add: review_def split: prod.splits sum.splits option.splits)

lemma review_session_respond:
  "fst (review_session (e\<lparr>respond := rsp\<rparr>) pr editor rv name w) =
     fst (review_session e pr editor rv name w)"
  "tmp_file (snd (review_session (e\<lparr>respond := rsp\<rparr>) pr editor rv name w)) =
     tmp_file (snd (review_session e pr editor rv name w))"
  by (simp_all add: review_session_tmp_file review_session_outcome editReviewInEditor_respond)

lemma ex_fetch:
  "fetch_review (ex_env msg) ex_pr ''main.go'' ex_world = (Inr ex_fetched, ex_fetched_world)"
  "fetch_review ex_env_editor_fails ex_pr ''main.go'' ex_world = (Inr ex_fetched, ex_fetched_world)"
  "fetch_review ex_env_unparsable ex_pr ''main.go'' ex_world = (Inr ex_fetched, ex_fetched_world)"
  by (simp_all add: fetch_review_def GetReview_def ex_env_def ex_env_editor_fails_def
      ex_env_unparsable_def ex_fetched_def ex_fetched_world_def)

lemma ex_fetched_Diffs: "Diffs (changeset ex_fetched) \<noteq> []"
  by (simp add: ex_fetched_def ForEachLine_attach_def ex_review_def)

lemma ex_session:
  "editReviewInEditor (ex_env msg) ''vi'' ex_fetched ''/tmp/review.diff.1'' w =
     (Value (Inr [ex_update, ex_create]),
      w\<lparr>trace := trace w @
           [Log INFO ''writing review to file: /tmp/review.diff.1'',
            Log DEBUG ''opening editor: vi /tmp/review.diff.1'',
            RunEditor ''vi'' ''/tmp/review.diff.1'',
            Log DEBUG ''reading modified review back'',
            ReadReviewCall,
            Log DEBUG ''comparing old and new reviews'',
            CompareCall],
          tmp_file := Some (''+line'' @ [nl] @ ''# [12@3] ok'' @ [nl] @ ''# nit'')\<rparr>)"
  by (simp add: editReviewInEditor_def ex_env_def emit_def)

text \<open>
  Claim C8. When the fetched review has no diffs, \<open>review\<close> prints that the file is not
  found and exits with status 1. The temporary file is as it was (none is created), and
  between the start and that message the trace holds no editor run and no request that
  changes a comment.
\<close>

theorem review_not_found:
  assumes "fetch_review e pr path w = (Inr rv, w1)"
    and "Diffs (changeset rv) = []"
  shows "review e pr editor path w =
           (Exited 1, Println ''Specified file is not found in pull request.'' w1)
       \<and> tmp_file (snd (review e pr editor path w)) = tmp_file w
       \<and> (\<exists>t. trace (snd (review e pr editor path w)) =
                 trace w @ t @ [Print (''Specified file is not found in pull request.'' @ [nl])]
              \<and> (\<forall>ed nm. RunEditor ed nm \<notin> set t)
              \<and> mutations_of t = [])"
proof -
  have r: "review e pr editor path w =
           (Exited 1, Println ''Specified file is not found in pull request.'' w1)"
    using assms by (simp add: review_def)
  obtain t where t: "trace w1 = trace w @ t" "mutations_of t = []"
      "\<forall>ev \<in> set t. (\<exists>l s. ev = Log l s) \<or> (\<exists>rq. ev = Request rq)"
    and f: "tmp_file w1 = tmp_file w"
    using fetch_review_effect [OF assms(1)] by blast
  have "\<forall>ed nm. RunEditor ed nm \<notin> set t"
    using t(3) by auto
  then show ?thesis
    using r t f by (simp add: Println_def emit_def)
qed

text \<open>A path absent from the pull request: the download, the message, the exit.\<close>

theorem review_not_found_witness:
  "review ex_env_absent ex_pr ''vi'' ''main.go'' ex_world =
     (Exited 1,
      \<lparr>trace = [Log DEBUG ''downloading review from Stash'',
                Request \<lparr>verb = GET, url = Resource ex_pr @ ''/diff/main.go'', query = [],
                         payload = None\<rparr>,
                Print (''Specified file is not found in pull request.'' @ [nl])],
       tmp_file = None\<rparr>)"
proof -
  have f: "fetch_review ex_env_absent ex_pr ''main.go'' ex_world =
      (Inr \<lparr>changeset = \<lparr>Path = ''main.go'', Diffs = []\<rparr>\<rparr>, ex_fetched_world)"
    by (simp add: fetch_review_def GetReview_def ex_env_absent_def ex_env_def
        ForEachLine_attach_def ex_fetched_world_def)
  have d: "Diffs (changeset \<lparr>changeset = \<lparr>Path = ''main.go'', Diffs = []\<rparr>\<rparr>) = []"
    by simp
  show ?thesis
    using review_not_found [OF f d, of "''vi''"]
    by (simp add: Println_def emit_def ex_fetched_world_def ex_world_def)
qed

text \<open>
  Claim C7. When the editor process ends with an error, the session exits with status 1
  after logging it: the review file is not read back, no comparison is made and no
  request that changes a comment is sent.
\<close>

theorem review_editor_failure:
  assumes "fetch_review e pr path w = (Inr rv, w1)"
    and "Diffs (changeset rv) \<noteq> []"
    and "TempFile e = Some name"
    and "run_editor e editor name (WriteReview e (AddVimModeline e (AddUsageComment e rv)))
           = (Some err, edited)"
  shows "fst (review e pr editor path w) = Exited 1
       \<and> (\<exists>t. trace (snd (review e pr editor path w)) = trace w @ t @ [Log CRITICAL (Error err)]
              \<and> ReadReviewCall \<notin> set t \<and> CompareCall \<notin> set t
              \<and> mutations_of t = [])"
proof -
  obtain t where t: "trace w1 = trace w @ t" "mutations_of t = []"
      "\<forall>ev \<in> set t. (\<exists>l s. ev = Log l s) \<or> (\<exists>rq. ev = Request rq)"
    using fetch_review_effect [OF assms(1)] by blast
  have n: "ReadReviewCall \<notin> set t" "CompareCall \<notin> set t"
    using t(3) by auto
  let ?t = "t @ [Log INFO (''writing review to file: '' @ name),
               Log DEBUG (''opening editor: '' @ editor @ '' '' @ name),
               RunEditor editor name]"
  have "review e pr editor path w =
          (Exited 1, w1\<lparr>trace := trace w @ ?t @ [Log CRITICAL (Error err)], tmp_file := Some edited\<rparr>)"
    using assms t(1)
    by (simp add: review_def review_session_def editReviewInEditor_editor_fails)
  moreover have "ReadReviewCall \<notin> set ?t \<and> CompareCall \<notin> set ?t \<and> mutations_of ?t = []"
    using n t(2) by (simp add: mutations_of_append mutations_of_simps)
  ultimately show ?thesis
    by (intro conjI exI [of _ ?t]) simp_all
qed

text \<open>An editor that ends with exit status 1.\<close>

theorem review_editor_failure_witness:
  "fst (review ex_env_editor_fails ex_pr ''vi'' ''main.go'' ex_world) = Exited 1
   \<and> mutations_of (trace (snd (review ex_env_editor_fails ex_pr ''vi'' ''main.go'' ex_world))) = []
   \<and> ReadReviewCall \<notin> set (trace (snd (review ex_env_editor_fails ex_pr ''vi'' ''main.go'' ex_world)))"
proof -
  have t: "TempFile ex_env_editor_fails = Some ''/tmp/review.diff.1''"
    by (simp add: ex_env_editor_fails_def ex_env_def)
  have r: "run_editor ex_env_editor_fails ''vi'' ''/tmp/review.diff.1''
             (WriteReview ex_env_editor_fails
               (AddVimModeline ex_env_editor_fails (AddUsageComment ex_env_editor_fails ex_fetched)))
           = (Some (GoError ''exit status 1''), ''+line'' @ [nl] @ ''# [12@3] ok'')"
    by (simp add: ex_env_editor_fails_def ex_env_def)
  show ?thesis
    using review_editor_failure [OF ex_fetch(2) ex_fetched_Diffs t r]
    by (auto simp: ex_world_def mutations_of_append mutations_of_simps)
qed



text \<open>
  Claim C3 as stated fails: applying the update fails, the failure is logged, and the
  session still returns with the temporary file removed.
\<close>

theorem review_keeps_tmp_file_counterexample:
  "fst (review (ex_env ''unexpected EOF'') ex_pr ''vi'' ''main.go'' ex_world) = Returned
   \<and> Log CRITICAL ''can not apply change: unexpected EOF''
       \<in> set (trace (snd (review (ex_env ''unexpected EOF'') ex_pr ''vi'' ''main.go'' ex_world)))
   \<and> tmp_file (snd (review (ex_env ''unexpected EOF'') ex_pr ''vi'' ''main.go'' ex_world)) = None"
proof -
  have t: "TempFile (ex_env ''unexpected EOF'') = Some ''/tmp/review.diff.1''"
    by (simp add: ex_env_def)
  have r: "respond (ex_env ''unexpected EOF'') sent (ApplyChange_request ex_pr ex_update)
             = Some (GoError ''unexpected EOF'')" for sent
    by (simp add: ex_env_def ex_remote_def ex_requests ex_methods)
  have "review (ex_env ''unexpected EOF'') ex_pr ''vi'' ''main.go'' ex_world =
        review_session (ex_env ''unexpected EOF'') ex_pr ''vi'' ex_fetched ''/tmp/review.diff.1''
          (ex_fetched_world\<lparr>tmp_file := Some []\<rparr>)"
    using ex_fetched_Diffs by (simp add: review_def ex_fetch t)
  then show ?thesis
    by (simp add: review_session_def ex_session emit_def apply_changes_Cons
        iteration_events_def r)
qed

text \<open>
  Claim C3, amended. The temporary file is removed when \<open>review\<close> returns after the loop
  over the changes; whether it returns so, and whether the file is there at the end, do
  not depend on what the remote service answers to the requests of the loop. When the
  file was created and the session ends in another way (fatal exit, no changes, a
  recovered panic), the file is kept.
\<close>

theorem review_removes_tmp_file_after_loop:
  "(fst (review e pr editor path w) = Returned \<longrightarrow>
      tmp_file (snd (review e pr editor path w)) = None)
   \<and> fst (review (e\<lparr>respond := rsp\<rparr>) pr editor path w) = fst (review e pr editor path w)
   \<and> tmp_file (snd (review (e\<lparr>respond := rsp\<rparr>) pr editor path w)) =
       tmp_file (snd (review e pr editor path w))
   \<and> (\<forall>rv w1 name.
         fetch_review e pr path w = (Inr rv, w1) \<and> Diffs (changeset rv) \<noteq> [] \<and>
         TempFile e = Some name \<and> fst (review e pr editor path w) \<noteq> Returned \<longrightarrow>
         tmp_file (snd (review e pr editor path w)) \<noteq> None)"
proof (intro conjI allI impI)
  assume "fst (review e pr editor path w) = Returned"
  then show "tmp_file (snd (review e pr editor path w)) = None"
    by (auto simp: review_def Println_def emit_def review_session_tmp_file
        split: prod.splits sum.splits option.splits if_splits)
next
  show "fst (review (e\<lparr>respond := rsp\<rparr>) pr editor path w) = fst (review e pr editor path w)"
    by (simp add: review_outcome fetch_review_respond review_session_respond
        split: prod.splits sum.splits option.splits)
next
  show "tmp_file (snd (review (e\<lparr>respond := rsp\<rparr>) pr editor path w)) =
       tmp_file (snd (review e pr editor path w))"
    by (simp add: review_def fetch_review_respond review_session_respond Println_def emit_def
        split: prod.splits sum.splits option.splits)
next
  fix rv w1 name
  assume a: "fetch_review e pr path w = (Inr rv, w1) \<and> Diffs (changeset rv) \<noteq> [] \<and>
         TempFile e = Some name \<and> fst (review e pr editor path w) \<noteq> Returned"
  then have r: "review e pr editor path w =
      review_session e pr editor rv name (w1\<lparr>tmp_file := Some []\<rparr>)"
    by (simp add: review_def)
  obtain x w2 where x: "editReviewInEditor e editor rv name (w1\<lparr>tmp_file := Some []\<rparr>) = (x, w2)"
    by (cases "editReviewInEditor e editor rv name (w1\<lparr>tmp_file := Some []\<rparr>)")
  show "tmp_file (snd (review e pr editor path w)) \<noteq> None"
    using a editReviewInEditor_effect [OF x] x
    by (simp add: r review_session_tmp_file)
qed

text \<open>The session of the example removes the file with the failing service and with one that never fails.\<close>

theorem review_removes_tmp_file_after_loop_witness:
  "fst (review (ex_env ''unexpected EOF'') ex_pr ''vi'' ''main.go'' ex_world) = Returned
   \<and> tmp_file (snd (review (ex_env ''unexpected EOF'') ex_pr ''vi'' ''main.go'' ex_world)) = None
   \<and> fst (review ((ex_env ''unexpected EOF'')\<lparr>respond := (\<lambda>sent r. None)\<rparr>)
             ex_pr ''vi'' ''main.go'' ex_world) = Returned
   \<and> tmp_file (snd (review ((ex_env ''unexpected EOF'')\<lparr>respond := (\<lambda>sent r. None)\<rparr>)
             ex_pr ''vi'' ''main.go'' ex_world)) = None"
proof -
  have t: "TempFile (ex_env ''unexpected EOF'') = Some ''/tmp/review.diff.1''"
    by (simp add: ex_env_def)
  have "review (ex_env ''unexpected EOF'') ex_pr ''vi'' ''main.go'' ex_world =
        review_session (ex_env ''unexpected EOF'') ex_pr ''vi'' ex_fetched ''/tmp/review.diff.1''
          (ex_fetched_world\<lparr>tmp_file := Some []\<rparr>)"
    using ex_fetched_Diffs by (simp add: review_def ex_fetch t)
  then have "fst (review (ex_env ''unexpected EOF'') ex_pr ''vi'' ''main.go'' ex_world) = Returned"
    by (simp add: review_session_outcome ex_session)
  then show ?thesis
    using review_removes_tmp_file_after_loop
      [of "ex_env ''unexpected EOF''" ex_pr "''vi''" "''main.go''" ex_world "\<lambda>sent r. None"]
    by simp
qed

section \<open>The pull-request number in \<open>parseUri\<close>\<close>

lemma digit_val_le: "is_digit c \<Longrightarrow> digit_val c \<le> 9"
  by (auto simp: is_digit_def digit_val_def)

lemma decimal_from_Cons: "decimal_from n (c # cs) = decimal_from (n * 10 + digit_val c) cs"
  by (simp add: decimal_from_def)

lemma decimal_from_Nil: "decimal_from n [] = n"
  by (simp add: decimal_from_def)

lemma decimal_from_ge: "n \<le> decimal_from n cs"
proof (induction cs arbitrary: n)
  case Nil
  then show ?case by (simp add: decimal_from_Nil)
next
  case (Cons c cs)
  have "n \<le> n * 10 + digit_val c" by simp
  also have "\<dots> \<le> decimal_from (n * 10 + digit_val c) cs" by (rule Cons.IH)
  finally show ?case by (simp add: decimal_from_Cons)
qed

lemma ParseUint_loop_digits:
  assumes "\<forall>c \<in> set cs. is_digit c" and "n \<le> maxVal" and "maxVal \<le> 65535"
  shows "ParseUint_loop maxVal n cs =
           (if decimal_from n cs \<le> maxVal then (decimal_from n cs, None)
            else (maxVal, Some ErrRange))"
  using assms
proof (induction cs arbitrary: n)
  case Nil
  then show ?case by (simp add: decimal_from_Nil)
next
  case (Cons c cs)
  have d: "digit_val c \<le> 9" using Cons.prems(1) by (simp add: digit_val_le)
  have small: "n * 10 + digit_val c < 2 ^ 64"
    using d Cons.prems(2,3) by simp
  have nc: "\<not> n \<ge> (2 ^ 64 - 1) div 10 + 1"
    using Cons.prems(2,3) by simp
  show ?case
  proof (cases "n * 10 + digit_val c > maxVal")
    case True
    then have "decimal_from (n * 10 + digit_val c) cs > maxVal"
      using decimal_from_ge [of "n * 10 + digit_val c" cs] by simp
    then show ?thesis
      using True Cons.prems(1) nc small by (simp add: decimal_from_Cons Let_def)
  next
    case False
    then have le: "n * 10 + digit_val c \<le> maxVal" by simp
    have "ParseUint_loop maxVal (n * 10 + digit_val c) cs =
           (if decimal_from (n * 10 + digit_val c) cs \<le> maxVal
            then (decimal_from (n * 10 + digit_val c) cs, None)
            else (maxVal, Some ErrRange))"
      using Cons.IH [OF _ le Cons.prems(3)] Cons.prems(1) by simp
    then show ?thesis
      using False Cons.prems(1) nc small by (simp add: decimal_from_Cons Let_def)
  qed
qed

lemma is_digit_not_sign: "is_digit c \<Longrightarrow> c \<noteq> CHR ''+'' \<and> c \<noteq> CHR ''-''"
  by (auto simp: is_digit_def)

lemma ParseInt_digits:
  assumes "ds \<noteq> []" and "\<forall>c \<in> set ds. is_digit c"
  shows "ParseInt ds 16 =
           (if decimal_value ds \<le> 32767 then (int (decimal_value ds), None)
            else (32767, Some ErrRange))"
proof -
  have h: "hd ds \<noteq> CHR ''+''" "hd ds \<noteq> CHR ''-''"
    using assms is_digit_not_sign [of "hd ds"] by auto
  have u: "ParseUint ds 16 =
           (if decimal_value ds \<le> 65535 then (decimal_value ds, None)
            else (65535, Some ErrRange))"
    using assms ParseUint_loop_digits [of ds 0 65535]
    by (simp add: ParseUint_def decimal_value_def)
  show ?thesis
    using assms(1) h by (simp add: ParseInt_def u Let_def)
qed

lemma match_path_shape:
  assumes "match_path s = Some gs"
  shows "length gs = 5 \<and> gs ! 4 \<noteq> [] \<and> (\<forall>c \<in> set (gs ! 4). is_digit c)"
  using assms
  by (auto simp: match_path_def Let_def split: option.splits if_splits dest!: set_takeWhileD)

lemma match_dotstar_shape:
  assumes "match_dotstar pre s = Some (p, gs)"
  shows "length gs = 5 \<and> gs ! 4 \<noteq> [] \<and> (\<forall>c \<in> set (gs ! 4). is_digit c)"
  using assms
proof (induction s arbitrary: pre)
  case Nil
  then show ?case by simp
next
  case (Cons c s)
  then show ?case
    by (auto split: if_splits option.splits dest: match_path_shape)
qed

lemma match_reStashURL_shape:
  assumes "match_reStashURL s = Some m"
  shows "length m = 7 \<and> m ! 6 \<noteq> [] \<and> (\<forall>c \<in> set (m ! 6). is_digit c)"
  using assms
  by (auto simp: match_reStashURL_def split: option.splits dest!: match_dotstar_shape)

lemma FindStringSubmatch_reStashURL_shape:
  assumes "FindStringSubmatch_reStashURL s \<noteq> []"
  shows "length (FindStringSubmatch_reStashURL s) = 7
       \<and> FindStringSubmatch_reStashURL s ! 6 \<noteq> []
       \<and> (\<forall>c \<in> set (FindStringSubmatch_reStashURL s ! 6). is_digit c)"
  using assms
proof (induction s)
  case Nil
  then show ?case by simp
next
  case (Cons c s)
  then show ?case
    by (cases "match_reStashURL (c # s)") (auto dest: match_reStashURL_shape)
qed

text \<open>
  Claim C9. For a pull-request id written as a string of decimal digits that denotes a
  number above 32767, \<open>ParseInt\<close> with bit size 16 returns 32767 and a range error, and
  \<open>parseUri\<close>, which drops the error, returns normally with 32767 as the pull request:
  in the URL form, where the id is group 6 of the match; in the shorthand form of three
  or more parts; and in the shorthand form of two parts with \<open>--project\<close> set.
\<close>

theorem parseUri_pr_clamped:
  assumes "ds \<noteq> []" and "\<forall>c \<in> set ds. is_digit c" and "32767 < decimal_value ds"
  shows "ParseInt ds 16 = (32767, Some ErrRange)
    \<and> (select_uri args = Value (uri, keyName, should)
        \<and> FindStringSubmatch_reStashURL uri \<noteq> []
        \<and> FindStringSubmatch_reStashURL uri ! 6 = ds
        \<longrightarrow> (\<exists>r. parseUri args w = (Value r, w) \<and> result_pr r = 32767))
    \<and> (select_uri args = Value (uri, keyName, 3)
        \<and> FindStringSubmatch_reStashURL uri = []
        \<and> args ''--host'' = Some (AString h)
        \<and> (args ''--project'' = None \<or> (\<exists>p. args ''--project'' = Some (AString p)))
        \<and> 3 \<le> length (Split (CHR ''/'') uri)
        \<and> Split (CHR ''/'') uri ! 0 \<noteq> [] \<and> Split (CHR ''/'') uri ! 1 \<noteq> []
        \<and> Split (CHR ''/'') uri ! 2 = ds
        \<longrightarrow> (\<exists>r. parseUri args w = (Value r, w) \<and> result_pr r = 32767))
    \<and> (select_uri args = Value (uri, keyName, 3)
        \<and> FindStringSubmatch_reStashURL uri = []
        \<and> args ''--host'' = Some (AString h)
        \<and> args ''--project'' = Some (AString p) \<and> p \<noteq> []
        \<and> length (Split (CHR ''/'') uri) = 2
        \<and> Split (CHR ''/'') uri ! 0 \<noteq> []
        \<and> Split (CHR ''/'') uri ! 1 = ds
        \<longrightarrow> (\<exists>r. parseUri args w = (Value r, w) \<and> result_pr r = 32767))"
proof -
  have p: "ParseInt ds 16 = (32767, Some ErrRange)"
    using assms by (simp add: ParseInt_digits)
  have url: "\<exists>r. parseUri args w = (Value r, w) \<and> result_pr r = 32767"
    if "select_uri args = Value (uri, keyName, should)"
      and "FindStringSubmatch_reStashURL uri \<noteq> []"
      and "FindStringSubmatch_reStashURL uri ! 6 = ds"
    using that p by (simp add: parseUri_def Let_def)
  have three: "\<exists>r. parseUri args w = (Value r, w) \<and> result_pr r = 32767"
    if "select_uri args = Value (uri, keyName, 3)"
      and "FindStringSubmatch_reStashURL uri = []"
      and "args ''--host'' = Some (AString h)"
      and "args ''--project'' = None \<or> (\<exists>p. args ''--project'' = Some (AString p))"
      and "3 \<le> length (Split (CHR ''/'') uri)"
      and "Split (CHR ''/'') uri ! 0 \<noteq> []" and "Split (CHR ''/'') uri ! 1 \<noteq> []"
      and "Split (CHR ''/'') uri ! 2 = ds"
    using that p by (auto simp: parseUri_def parseUri_shorthand_def Let_def)
  have two: "\<exists>r. parseUri args w = (Value r, w) \<and> result_pr r = 32767"
    if "select_uri args = Value (uri, keyName, 3)"
      and "FindStringSubmatch_reStashURL uri = []"
      and "args ''--host'' = Some (AString h)"
      and "args ''--project'' = Some (AString p)" and "p \<noteq> []"
      and "length (Split (CHR ''/'') uri) = 2"
      and "Split (CHR ''/'') uri ! 0 \<noteq> []"
      and "Split (CHR ''/'') uri ! 1 = ds"
    using that p by (auto simp: parseUri_def parseUri_shorthand_def Let_def)
  show ?thesis
    using p url three two by blast
qed

lemma ex_decimal: "decimal_value ''40000'' = 40000"
  by (simp add: decimal_value_def decimal_from_def digit_val_def)

lemma ex_find_url:
  "FindStringSubmatch_reStashURL ''https://stash.local/projects/p/repos/r/pull-requests/40000'' =
     [''https://stash.local/projects/p/repos/r/pull-requests/40000'', ''https://stash.local/'',
      ''projects/p'', ''projects'', ''p'', ''r'', ''40000'']"
  by (simp add: match_reStashURL_def strip_prefix_def match_path_def not_slash_def
      is_digit_def nl_def Let_def)

lemma ex_find_short: "FindStringSubmatch_reStashURL ''p/r/40000'' = []"
  by (simp add: match_reStashURL_def strip_prefix_def)

text \<open>Pull request 40000 becomes 32767 in the URL form and in the shorthand form.\<close>

theorem parseUri_pr_clamped_witness:
  "decimal_value ''40000'' = 40000
   \<and> ParseInt ''40000'' 16 = (32767, Some ErrRange)
   \<and> (\<exists>r. parseUri ex_args_url ex_world = (Value r, ex_world) \<and> result_pr r = 32767)
   \<and> (\<exists>r. parseUri ex_args_short ex_world = (Value r, ex_world) \<and> result_pr r = 32767)"
proof -
  have d: "''40000'' \<noteq> []" "\<forall>c \<in> set ''40000''. is_digit c" "32767 < decimal_value ''40000''"
    by (simp_all add: is_digit_def ex_decimal)
  have s1: "select_uri ex_args_url =
      Value (''https://stash.local/projects/p/repos/r/pull-requests/40000'',
             ''<project>/<repo>/<pr>'', 3)"
    by (simp add: select_uri_def ex_args_url_def)
  have s2: "select_uri ex_args_short = Value (''p/r/40000'', ''<project>/<repo>/<pr>'', 3)"
    by (simp add: select_uri_def ex_args_short_def)
  have h: "ex_args_short ''--host'' = Some (AString ''stash.local'')"
      "ex_args_short ''--project'' = None"
    by (simp_all add: ex_args_short_def)
  have sp: "Split (CHR ''/'') ''p/r/40000'' = [''p'', ''r'', ''40000'']"
    by simp
  show ?thesis
    using parseUri_pr_clamped [OF d, of ex_args_url
        "''https://stash.local/projects/p/repos/r/pull-requests/40000''"
        "''<project>/<repo>/<pr>''" 3 ex_world]
      parseUri_pr_clamped [OF d, of ex_args_short "''p/r/40000''"
        "''<project>/<repo>/<pr>''" 3 ex_world "''stash.local''"]
      s1 s2 h
    by (simp add: ex_decimal ex_find_url ex_find_short sp
        del: FindStringSubmatch_reStashURL.simps Split.simps)
qed

section \<open>The redacted arguments\<close>







lemma ReplaceAllString_no_match:
  assumes "match_rePassFlag (c # cs) = None"
  shows "ReplaceAllString_rePassFlag lit 0 (c # cs) = c # ReplaceAllString_rePassFlag lit 0 cs"
  using assms by simp





lemma match_shape_p:
  "match_rePassFlag (c # CHR ''-'' # CHR ''p'' # d # x # t) = None \<longleftrightarrow>
     \<not> (is_space c \<and> (is_space d \<or> d = CHR ''='') \<and> x \<noteq> CHR '' '')"
  by (auto simp: match_rePassFlag_def strip_prefix_def not_blank_def)

lemma match_shape_pass:
  "match_rePassFlag (c # CHR ''-'' # CHR ''-'' # CHR ''p'' # CHR ''a'' # CHR ''s'' # CHR ''s''
                     # d # x # t) = None \<longleftrightarrow>
     \<not> (is_space c \<and> (is_space d \<or> d = CHR ''='') \<and> x \<noteq> CHR '' '')"
  by (auto simp: match_rePassFlag_def strip_prefix_def not_blank_def)

















end
